theory Spec2Isabelle
  imports Complex_Main "HOL-Library.Log_Nat"
begin

section \<open>Hardware shop ERP: inventory ledger and stock reconciliation\<close>

text \<open>
  The development embeds \<^verbatim>\<open>src/main.py\<close> and the schemas of \<^verbatim>\<open>src/schemas.py\<close>:
  the endpoints \<^verbatim>\<open>create_item\<close>, \<^verbatim>\<open>create_purchase\<close>, \<^verbatim>\<open>create_sale\<close> and
  \<^verbatim>\<open>stock_report\<close>, and the helper \<^verbatim>\<open>to_oid\<close>. Exceptions are values of the type
  \<open>error\<close>; the document store is an explicit state.
\<close>

subsection \<open>Python floats\<close>

text \<open>
  A Python \<^verbatim>\<open>float\<close> is an IEEE-754 binary64 number: 53 bits of significand, exponents
  from \<open>-1022\<close> to \<open>1023\<close>, results rounded to the nearest representable number with
  ties going to the even significand. A finite float is modelled by the rational number
  it denotes (the two zeros \<open>0.0\<close> and \<open>-0.0\<close>, which compare equal in Python, are one
  value here); the infinities and NaN are separate values.
\<close>

datatype pyfloat = Fin rat | PosInf | NegInf | NaN

definition pow2 :: "int \<Rightarrow> rat" where
  "pow2 e = (if 0 \<le> e then 2 ^ nat e else 1 / 2 ^ nat (- e))"

text \<open>Rounding a rational to an integer, ties to the even neighbour.\<close>

definition round_half_even :: "rat \<Rightarrow> int" where
  "round_half_even x =
     (let f = \<lfloor>x\<rfloor>; d = x - of_int f
      in if d < 1 / 2 then f
         else if 1 / 2 < d then f + 1
         else if even f then f else f + 1)"

text \<open>The binary exponent \<open>\<lfloor>log\<^sub>2 x\<rfloor>\<close> of a positive rational \<open>x = a / b\<close>.\<close>

definition ilog2 :: "rat \<Rightarrow> int" where
  "ilog2 x =
     (let (a, b) = quotient_of x; e = bitlen a - bitlen b
      in if pow2 e \<le> x then e else e - 1)"

text \<open>
  \<open>fl x\<close> is the binary64 number nearest to the rational \<open>x\<close>: the quantum is
  \<open>2 ^ (e - 52)\<close> for the exponent \<open>e\<close> of \<open>x\<close> (not below \<open>-1022\<close>, which gives the
  subnormal range), and a result of magnitude \<open>2 ^ 1024\<close> or more, that is of exponent
  \<open>1024\<close> or more, overflows.
\<close>

definition fl :: "rat \<Rightarrow> pyfloat" where
  "fl x =
     (if x = 0 then Fin 0
      else
        let e = max (ilog2 \<bar>x\<bar>) (- 1022);
            q = pow2 (e - 52);
            y = of_int (round_half_even (x / q)) * q
        in if y \<noteq> 0 \<and> 1024 \<le> ilog2 \<bar>y\<bar> then (if 0 < x then PosInf else NegInf)
           else Fin y)"

text \<open>\<^verbatim>\<open>a + b\<close> and \<^verbatim>\<open>a - b\<close> on floats: the exact result, rounded once.\<close>

fun fadd :: "pyfloat \<Rightarrow> pyfloat \<Rightarrow> pyfloat" where
  "fadd (Fin a) (Fin b) = fl (a + b)"
| "fadd NaN _ = NaN"
| "fadd _ NaN = NaN"
| "fadd PosInf NegInf = NaN"
| "fadd NegInf PosInf = NaN"
| "fadd PosInf _ = PosInf"
| "fadd _ PosInf = PosInf"
| "fadd NegInf _ = NegInf"
| "fadd _ NegInf = NegInf"

fun fsub :: "pyfloat \<Rightarrow> pyfloat \<Rightarrow> pyfloat" where
  "fsub (Fin a) (Fin b) = fl (a - b)"
| "fsub NaN _ = NaN"
| "fsub _ NaN = NaN"
| "fsub PosInf PosInf = NaN"
| "fsub NegInf NegInf = NaN"
| "fsub PosInf _ = PosInf"
| "fsub _ PosInf = NegInf"
| "fsub NegInf _ = NegInf"
| "fsub _ NegInf = PosInf"

text \<open>
  \<^verbatim>\<open>float(v)\<close> of a stored number \<open>v\<close> (a BSON double, or the integer \<open>0\<close> of a schema
  default): the nearest float, which is \<open>v\<close> itself when \<open>v\<close> is a float already.
\<close>

definition py_float :: "rat \<Rightarrow> pyfloat" where
  "py_float v = fl v"

text \<open>
  \<^verbatim>\<open>round(x, 2)\<close> on a float: the exact value of \<open>x\<close> is rounded to the nearest multiple
  of \<open>1/100\<close>, ties to the even multiple, and that decimal is converted back to the
  nearest float. Infinities and NaN round to themselves.
\<close>

fun py_round2 :: "pyfloat \<Rightarrow> pyfloat" where
  "py_round2 (Fin x) = fl (of_int (round_half_even (x * 100)) / 100)"
| "py_round2 v = v"

subsection \<open>Errors\<close>

datatype error =
    HTTPException nat string
  | ValidationError string
  | KeyError string

subsection \<open>Documents read by the stock report\<close>

text \<open>
  The report reads documents through \<^verbatim>\<open>dict.get\<close>, so a field of a stored document may
  be absent: \<open>None\<close> is an absent field. \<open>d_id\<close> is \<^verbatim>\<open>str(it.get("_id"))\<close>, the store's
  identifier of the item as a string. The fields of an item that no modelled function
  reads (category, prices, tax rate, reorder level, barcode, active flag) are left out.
\<close>

record item_doc =
  d_id :: string
  d_name :: "string option"
  d_sku :: "string option"
  d_opening_stock :: "rat option"
  d_unit :: "string option"

text \<open>
  The \<^verbatim>\<open>item_id\<close> of a stored movement, as the report distinguishes it: absent, an
  \<^verbatim>\<open>ObjectId\<close> (given by its string form) or a string.
\<close>

datatype id_value = IdNone | IdOid string | IdStr string

record movement_doc =
  m_id :: string
  m_item_id :: id_value
  m_type :: "string option"
  m_qty :: "rat option"
  m_reason :: "string option"
  m_ref_type :: "string option"
  m_ref_id :: "string option"
  m_date :: "nat option"

record report_row =
  r_item_id :: string
  r_name :: "string option"
  r_sku :: "string option"
  r_on_hand :: pyfloat
  r_unit :: string

subsection \<open>The stock report (\<^verbatim>\<open>stock_report\<close>, lines 159 to 183)\<close>

type_synonym qty_map = "string \<Rightarrow> pyfloat option"

text \<open>
  \<^verbatim>\<open>qty_map.get(k, 0)\<close> and \<^verbatim>\<open>qty_map[k]\<close>. The default of \<^verbatim>\<open>get\<close> is the integer \<open>0\<close>,
  which Python converts to the float \<open>0.0\<close> when a float is added to it: it is \<open>Fin 0\<close>.
\<close>

definition get_or_0 :: "qty_map \<Rightarrow> string \<Rightarrow> pyfloat" where
  "get_or_0 qm k = (case qm k of None \<Rightarrow> Fin 0 | Some v \<Rightarrow> v)"

definition subscript :: "qty_map \<Rightarrow> string \<Rightarrow> error + pyfloat" where
  "subscript qm k = (case qm k of None \<Rightarrow> Inl (KeyError k) | Some v \<Rightarrow> Inr v)"

text \<open>\<^verbatim>\<open>it.get("opening_stock", 0)\<close> and \<^verbatim>\<open>m.get("qty", 0)\<close>.\<close>

definition opening_stock_or_0 :: "item_doc \<Rightarrow> rat" where
  "opening_stock_or_0 it = (case d_opening_stock it of None \<Rightarrow> 0 | Some v \<Rightarrow> v)"

definition qty_or_0 :: "movement_doc \<Rightarrow> rat" where
  "qty_or_0 m = (case m_qty m of None \<Rightarrow> 0 | Some v \<Rightarrow> v)"

text \<open>The first loop: one entry per item, keyed by the item's identifier.\<close>

fun items_loop :: "item_doc list \<Rightarrow> qty_map \<Rightarrow> qty_map" where
  "items_loop [] qm = qm"
| "items_loop (it # its) qm =
     items_loop its (qm(d_id it \<mapsto> py_float (opening_stock_or_0 it)))"

text \<open>
  \<^verbatim>\<open>item_key\<close>: the string form of an \<^verbatim>\<open>ObjectId\<close>, otherwise the value as it is.
\<close>

definition item_key :: "movement_doc \<Rightarrow> string option" where
  "item_key m =
     (case m_item_id m of IdNone \<Rightarrow> None | IdOid h \<Rightarrow> Some h | IdStr s \<Rightarrow> Some s)"

text \<open>\<^verbatim>\<open>not item_key\<close>: an absent value and the empty string are falsy.\<close>

definition falsy :: "string option \<Rightarrow> bool" where
  "falsy k = (case k of None \<Rightarrow> True | Some s \<Rightarrow> s = [])"

text \<open>The body of the second loop, for one movement.\<close>

definition apply_movement :: "qty_map \<Rightarrow> movement_doc \<Rightarrow> error + qty_map" where
  "apply_movement qm m =
     (case item_key m of
        None \<Rightarrow> Inr qm
      | Some k \<Rightarrow>
          if falsy (Some k) then Inr qm
          else
            let qm1 = qm(k \<mapsto> get_or_0 qm k)
            in if m_type m = Some ''in'' then
                 (case subscript qm1 k of
                    Inl e \<Rightarrow> Inl e
                  | Inr v \<Rightarrow> Inr (qm1(k \<mapsto> fadd v (py_float (qty_or_0 m)))))
               else if m_type m = Some ''out'' then
                 (case subscript qm1 k of
                    Inl e \<Rightarrow> Inl e
                  | Inr v \<Rightarrow> Inr (qm1(k \<mapsto> fsub v (py_float (qty_or_0 m)))))
               else Inr qm1)"

fun movements_loop :: "movement_doc list \<Rightarrow> qty_map \<Rightarrow> error + qty_map" where
  "movements_loop [] qm = Inr qm"
| "movements_loop (m # ms) qm =
     (case apply_movement qm m of
        Inl e \<Rightarrow> Inl e
      | Inr qm' \<Rightarrow> movements_loop ms qm')"

text \<open>The third loop: one row per item, in the order of the items.\<close>

definition report_row_of :: "qty_map \<Rightarrow> item_doc \<Rightarrow> report_row" where
  "report_row_of qm it =
     \<lparr> r_item_id = d_id it,
       r_name = d_name it,
       r_sku = d_sku it,
       r_on_hand = py_round2 (get_or_0 qm (d_id it)),
       r_unit = (case d_unit it of None \<Rightarrow> ''pcs'' | Some u \<Rightarrow> u) \<rparr>"

definition compute_stock_report ::
  "item_doc list \<Rightarrow> movement_doc list \<Rightarrow> error + report_row list" where
  "compute_stock_report items movements =
     (case movements_loop movements (items_loop items Map.empty) of
        Inl e \<Rightarrow> Inl e
      | Inr qm \<Rightarrow> Inr (map (report_row_of qm) items))"

subsection \<open>Request payloads (\<^verbatim>\<open>src/schemas.py\<close>)\<close>

text \<open>
  The payload classes, with their fields in the order of the source. A \<^verbatim>\<open>datetime\<close> is
  a natural number (a reading of the clock). A payload reaches an endpoint after the
  framework has validated it against the constraints of its class; the predicates
  \<open>valid_\<dots>\<close> below are these constraints.
\<close>

record Item =
  item_name :: string
  item_sku :: string
  item_category :: "string option"
  item_unit :: string
  item_tax_rate :: rat
  item_cost_price :: rat
  item_sale_price :: rat
  item_reorder_level :: int
  item_opening_stock :: rat
  item_barcode :: "string option"
  item_is_active :: bool

record PurchaseItem =
  pi_item_id :: string
  pi_qty :: rat
  pi_cost :: rat
  pi_tax_rate :: rat
  pi_discount :: rat

record Purchase =
  p_vendor_id :: string
  p_bill_number :: "string option"
  p_bill_date :: "nat option"
  p_items :: "PurchaseItem list"
  p_other_charges :: rat
  p_notes :: "string option"
  p_payment_status :: string

record SaleItem =
  si_item_id :: string
  si_qty :: rat
  si_price :: rat
  si_discount :: rat
  si_tax_rate :: rat

record Sale =
  s_customer_id :: "string option"
  s_invoice_number :: "string option"
  s_invoice_date :: "nat option"
  s_items :: "SaleItem list"
  s_other_charges :: rat
  s_notes :: "string option"
  s_payment_status :: string

record StockMovement =
  sm_item_id :: string
  sm_type :: string
  sm_qty :: rat
  sm_reason :: string
  sm_ref_type :: "string option"
  sm_ref_id :: "string option"
  sm_date :: "nat option"

definition valid_Item :: "Item \<Rightarrow> bool" where
  "valid_Item i =
     (0 \<le> item_tax_rate i \<and> item_tax_rate i \<le> 100 \<and> 0 \<le> item_cost_price i \<and>
      0 \<le> item_sale_price i \<and> 0 \<le> item_reorder_level i \<and> 0 \<le> item_opening_stock i)"

definition valid_PurchaseItem :: "PurchaseItem \<Rightarrow> bool" where
  "valid_PurchaseItem l =
     (0 < pi_qty l \<and> 0 \<le> pi_cost l \<and> 0 \<le> pi_tax_rate l \<and> pi_tax_rate l \<le> 100 \<and>
      0 \<le> pi_discount l)"

definition valid_Purchase :: "Purchase \<Rightarrow> bool" where
  "valid_Purchase p = list_all valid_PurchaseItem (p_items p)"

definition valid_SaleItem :: "SaleItem \<Rightarrow> bool" where
  "valid_SaleItem l =
     (0 < si_qty l \<and> 0 \<le> si_price l \<and> 0 \<le> si_discount l \<and> 0 \<le> si_tax_rate l \<and>
      si_tax_rate l \<le> 100)"

definition valid_Sale :: "Sale \<Rightarrow> bool" where
  "valid_Sale p = list_all valid_SaleItem (s_items p)"

text \<open>
  The constructor call \<^verbatim>\<open>StockMovement(item_id=\<dots>, type=\<dots>, qty=\<dots>, \<dots>)\<close> of the two
  ledger endpoints validates its arguments: \<^verbatim>\<open>qty\<close> is declared \<^verbatim>\<open>gt=0\<close>.
\<close>

definition StockMovement_init ::
  "string \<Rightarrow> string \<Rightarrow> rat \<Rightarrow> string \<Rightarrow> string option \<Rightarrow> string option \<Rightarrow> nat option
     \<Rightarrow> error + StockMovement" where
  "StockMovement_init item_id type qty reason ref_type ref_id date =
     (if 0 < qty then
        Inr \<lparr> sm_item_id = item_id, sm_type = type, sm_qty = qty, sm_reason = reason,
              sm_ref_type = ref_type, sm_ref_id = ref_id, sm_date = date \<rparr>
      else Inl (ValidationError ''qty''))"

subsection \<open>The document store\<close>

text \<open>
  The module \<^verbatim>\<open>database\<close> (\<^verbatim>\<open>db\<close>, \<^verbatim>\<open>create_document\<close>, \<^verbatim>\<open>get_documents\<close>) is not among the
  sources. The store is modelled as one list of documents per collection, in insertion
  order, and the number of documents inserted so far; \<open>new_id n\<close> is the identifier
  the store generates for its \<open>n\<close>-th insertion. The store is taken to be reachable:
  an unreachable store is outside the model.
\<close>

record store =
  item_coll :: "item_doc list"
  purchase_coll :: "(string \<times> Purchase) list"
  sale_coll :: "(string \<times> Sale) list"
  stockmovement_coll :: "movement_doc list"
  inserted :: nat

text \<open>The stored form of an item and of a movement: every field of the payload is present.\<close>

definition item_document :: "string \<Rightarrow> Item \<Rightarrow> item_doc" where
  "item_document i payload =
     \<lparr> d_id = i, d_name = Some (item_name payload), d_sku = Some (item_sku payload),
       d_opening_stock = Some (item_opening_stock payload),
       d_unit = Some (item_unit payload) \<rparr>"

definition movement_document :: "string \<Rightarrow> StockMovement \<Rightarrow> movement_doc" where
  "movement_document i mv =
     \<lparr> m_id = i, m_item_id = IdStr (sm_item_id mv), m_type = Some (sm_type mv),
       m_qty = Some (sm_qty mv), m_reason = Some (sm_reason mv),
       m_ref_type = sm_ref_type mv, m_ref_id = sm_ref_id mv, m_date = sm_date mv \<rparr>"

text \<open>
  Modelled from the spec: \<^verbatim>\<open>create_document\<close> of the absent module \<^verbatim>\<open>database\<close>, one
  definition per collection. The spec has the store persist what was sent under a
  generated identifier, which every create endpoint returns as a string.
\<close>

definition create_document_item :: "(nat \<Rightarrow> string) \<Rightarrow> Item \<Rightarrow> store \<Rightarrow> string \<times> store" where
  "create_document_item new_id payload s =
     (let i = new_id (inserted s)
      in (i, s\<lparr> item_coll := item_coll s @ [item_document i payload],
                inserted := inserted s + 1 \<rparr>))"

definition create_document_purchase ::
  "(nat \<Rightarrow> string) \<Rightarrow> Purchase \<Rightarrow> store \<Rightarrow> string \<times> store" where
  "create_document_purchase new_id payload s =
     (let i = new_id (inserted s)
      in (i, s\<lparr> purchase_coll := purchase_coll s @ [(i, payload)],
                inserted := inserted s + 1 \<rparr>))"

definition create_document_sale :: "(nat \<Rightarrow> string) \<Rightarrow> Sale \<Rightarrow> store \<Rightarrow> string \<times> store" where
  "create_document_sale new_id payload s =
     (let i = new_id (inserted s)
      in (i, s\<lparr> sale_coll := sale_coll s @ [(i, payload)],
                inserted := inserted s + 1 \<rparr>))"

definition create_document_stockmovement ::
  "(nat \<Rightarrow> string) \<Rightarrow> StockMovement \<Rightarrow> store \<Rightarrow> string \<times> store" where
  "create_document_stockmovement new_id mv s =
     (let i = new_id (inserted s)
      in (i, s\<lparr> stockmovement_coll := stockmovement_coll s @ [movement_document i mv],
                inserted := inserted s + 1 \<rparr>))"

text \<open>
  Modelled from the spec: \<^verbatim>\<open>coll("item").find_one({"sku": sku})\<close>, the first stored item
  whose \<^verbatim>\<open>sku\<close> field is the given string.
\<close>

definition find_one_sku :: "store \<Rightarrow> string \<Rightarrow> item_doc option" where
  "find_one_sku s sku = find (\<lambda>d. d_sku d = Some sku) (item_coll s)"

subsection \<open>The endpoints (\<^verbatim>\<open>src/main.py\<close>)\<close>

text \<open>
  An endpoint takes the store and returns its result, or the exception it raises,
  together with the store it leaves behind: what was persisted before an exception
  stays persisted.
\<close>

text \<open>
  \<^verbatim>\<open>to_oid\<close>. The constructor \<^verbatim>\<open>ObjectId\<close> of the library \<^verbatim>\<open>bson\<close> is a parameter: \<open>None\<close>
  where it raises.
\<close>

definition to_oid :: "(string \<Rightarrow> string option) \<Rightarrow> string \<Rightarrow> error + string" where
  "to_oid ObjectId id_str =
     (case ObjectId id_str of
        Some oid \<Rightarrow> Inr oid
      | None \<Rightarrow> Inl (HTTPException 400 ''Invalid id''))"

definition create_item ::
  "(nat \<Rightarrow> string) \<Rightarrow> Item \<Rightarrow> store \<Rightarrow> (error + string) \<times> store" where
  "create_item new_id payload s =
     (case find_one_sku s (item_sku payload) of
        Some existing \<Rightarrow> (Inl (HTTPException 400 ''SKU already exists''), s)
      | None \<Rightarrow>
          (let (i, s') = create_document_item new_id payload s in (Inr i, s')))"

text \<open>
  The loop of \<^verbatim>\<open>create_purchase\<close> over \<^verbatim>\<open>payload.items\<close>; \<open>utcnow n\<close> is what the clock
  reads at the \<open>n\<close>-th line.
\<close>

fun purchase_lines ::
  "(nat \<Rightarrow> string) \<Rightarrow> (nat \<Rightarrow> nat) \<Rightarrow> string \<Rightarrow> nat \<Rightarrow> PurchaseItem list \<Rightarrow> store
     \<Rightarrow> (error + unit) \<times> store" where
  "purchase_lines new_id utcnow purchase_id n [] s = (Inr (), s)"
| "purchase_lines new_id utcnow purchase_id n (line # rest) s =
     (case StockMovement_init (pi_item_id line) ''in'' (pi_qty line) ''purchase''
             (Some ''purchase'') (Some purchase_id) (Some (utcnow n)) of
        Inl e \<Rightarrow> (Inl e, s)
      | Inr movement \<Rightarrow>
          purchase_lines new_id utcnow purchase_id (n + 1) rest
            (snd (create_document_stockmovement new_id movement s)))"

definition create_purchase ::
  "(nat \<Rightarrow> string) \<Rightarrow> (nat \<Rightarrow> nat) \<Rightarrow> Purchase \<Rightarrow> store \<Rightarrow> (error + string) \<times> store" where
  "create_purchase new_id utcnow payload s =
     (let (purchase_id, s1) = create_document_purchase new_id payload s
      in case purchase_lines new_id utcnow purchase_id 0 (p_items payload) s1 of
           (Inl e, s2) \<Rightarrow> (Inl e, s2)
         | (Inr _, s2) \<Rightarrow> (Inr purchase_id, s2))"

fun sale_lines ::
  "(nat \<Rightarrow> string) \<Rightarrow> (nat \<Rightarrow> nat) \<Rightarrow> string \<Rightarrow> nat \<Rightarrow> SaleItem list \<Rightarrow> store
     \<Rightarrow> (error + unit) \<times> store" where
  "sale_lines new_id utcnow sale_id n [] s = (Inr (), s)"
| "sale_lines new_id utcnow sale_id n (line # rest) s =
     (case StockMovement_init (si_item_id line) ''out'' (si_qty line) ''sale''
             (Some ''sale'') (Some sale_id) (Some (utcnow n)) of
        Inl e \<Rightarrow> (Inl e, s)
      | Inr movement \<Rightarrow>
          sale_lines new_id utcnow sale_id (n + 1) rest
            (snd (create_document_stockmovement new_id movement s)))"

definition create_sale ::
  "(nat \<Rightarrow> string) \<Rightarrow> (nat \<Rightarrow> nat) \<Rightarrow> Sale \<Rightarrow> store \<Rightarrow> (error + string) \<times> store" where
  "create_sale new_id utcnow payload s =
     (let (sale_id, s1) = create_document_sale new_id payload s
      in case sale_lines new_id utcnow sale_id 0 (s_items payload) s1 of
           (Inl e, s2) \<Rightarrow> (Inl e, s2)
         | (Inr _, s2) \<Rightarrow> (Inr sale_id, s2))"

text \<open>
  \<^verbatim>\<open>stock_report\<close>: the items and the movements are read from the store
  (\<^verbatim>\<open>find({})\<close>, every document of the collection), and nothing is written.
\<close>

definition stock_report :: "store \<Rightarrow> (error + report_row list) \<times> store" where
  "stock_report s =
     (compute_stock_report (item_coll s) (stockmovement_coll s), s)"

subsection \<open>The ledger of one item\<close>

text \<open>
  The notions in which the properties of the report are stated; they are not part of
  the program. \<open>movement_effect k a m\<close> is the quantity held for the key \<open>k\<close> after the
  movement \<open>m\<close> when it was \<open>a\<close> before. \<open>total_in k ms\<close> and \<open>total_out k ms\<close> are the
  exact sums of the \<open>in\<close> and of the \<open>out\<close> quantities of the movements keyed by \<open>k\<close>.
  \<open>exact_ledger k a ms\<close> says that the running balance of \<open>k\<close>, started at \<open>a\<close>, is never
  rounded: each float addition and subtraction along \<open>ms\<close> returns the exact result.
\<close>

definition movement_effect :: "string \<Rightarrow> pyfloat \<Rightarrow> movement_doc \<Rightarrow> pyfloat" where
  "movement_effect k a m =
     (if item_key m = Some k \<and> k \<noteq> [] then
        (if m_type m = Some ''in'' then fadd a (py_float (qty_or_0 m))
         else if m_type m = Some ''out'' then fsub a (py_float (qty_or_0 m))
         else a)
      else a)"

definition total_in :: "string \<Rightarrow> movement_doc list \<Rightarrow> rat" where
  "total_in k ms =
     sum_list (map qty_or_0 (filter (\<lambda>m. item_key m = Some k \<and> m_type m = Some ''in'') ms))"

definition total_out :: "string \<Rightarrow> movement_doc list \<Rightarrow> rat" where
  "total_out k ms =
     sum_list (map qty_or_0 (filter (\<lambda>m. item_key m = Some k \<and> m_type m = Some ''out'') ms))"

fun exact_ledger :: "string \<Rightarrow> rat \<Rightarrow> movement_doc list \<Rightarrow> bool" where
  "exact_ledger k a [] = True"
| "exact_ledger k a (m # ms) =
     (if item_key m = Some k \<and> m_type m = Some ''in'' then
        fadd (Fin a) (py_float (qty_or_0 m)) = Fin (a + qty_or_0 m) \<and>
        exact_ledger k (a + qty_or_0 m) ms
      else if item_key m = Some k \<and> m_type m = Some ''out'' then
        fsub (Fin a) (py_float (qty_or_0 m)) = Fin (a - qty_or_0 m) \<and>
        exact_ledger k (a - qty_or_0 m) ms
      else exact_ledger k a ms)"

subsection \<open>Example documents\<close>

text \<open>
  A hammer with an opening stock of 10, and four movements: a purchase of 5, a sale of
  3, an adjustment of 4 (a type that is neither \<open>in\<close> nor \<open>out\<close>) and a purchase of 7
  whose item identifier is the empty string.
\<close>

definition demo_item :: item_doc where
  "demo_item =
     \<lparr> d_id = ''a1'', d_name = Some ''Hammer'', d_sku = Some ''H-1'',
       d_opening_stock = Some 10, d_unit = None \<rparr>"

definition demo_movement :: "string \<Rightarrow> string \<Rightarrow> string \<Rightarrow> rat \<Rightarrow> movement_doc" where
  "demo_movement i item_id type qty =
     \<lparr> m_id = i, m_item_id = IdStr item_id, m_type = Some type, m_qty = Some qty,
       m_reason = None, m_ref_type = None, m_ref_id = None, m_date = None \<rparr>"

definition demo_in :: movement_doc where
  "demo_in = demo_movement ''m1'' ''a1'' ''in'' 5"

definition demo_out :: movement_doc where
  "demo_out = demo_movement ''m2'' ''a1'' ''out'' 3"

definition demo_adjust :: movement_doc where
  "demo_adjust = demo_movement ''m3'' ''a1'' ''adjust'' 4"

definition demo_blank :: movement_doc where
  "demo_blank = demo_movement ''m4'' [] ''in'' 7"

definition demo_store :: store where
  "demo_store =
     \<lparr> item_coll = [demo_item], purchase_coll = [], sale_coll = [],
       stockmovement_coll = [demo_in, demo_out], inserted = 3 \<rparr>"

text \<open>An identifier generator: the \<open>n\<close>-th identifier is \<open>n + 1\<close> letters \<open>a\<close>.\<close>

definition demo_id :: "nat \<Rightarrow> string" where
  "demo_id n = replicate (Suc n) CHR ''a''"

text \<open>
  Payloads: a purchase of two lines, a sale of one line, a purchase whose identifiers
  are not in the format of the store's identifiers, a purchase without lines, and an
  item. \<open>demo_ObjectId\<close> stands for a constructor that, like the library's, refuses
  every string that is not 24 characters long.
\<close>

definition demo_purchase :: Purchase where
  "demo_purchase =
     \<lparr> p_vendor_id = ''v1'', p_bill_number = None, p_bill_date = None,
       p_items =
         [\<lparr> pi_item_id = ''a1'', pi_qty = 5, pi_cost = 2, pi_tax_rate = 0, pi_discount = 0 \<rparr>,
          \<lparr> pi_item_id = ''b2'', pi_qty = 1 / 2, pi_cost = 9, pi_tax_rate = 18, pi_discount = 0 \<rparr>],
       p_other_charges = 0, p_notes = None, p_payment_status = ''unpaid'' \<rparr>"

definition demo_sale :: Sale where
  "demo_sale =
     \<lparr> s_customer_id = None, s_invoice_number = None, s_invoice_date = None,
       s_items =
         [\<lparr> si_item_id = ''a1'', si_qty = 3, si_price = 4, si_discount = 0, si_tax_rate = 0 \<rparr>],
       s_other_charges = 0, s_notes = None, s_payment_status = ''paid'' \<rparr>"

definition demo_bad_purchase :: Purchase where
  "demo_bad_purchase =
     \<lparr> p_vendor_id = ''not-an-id'', p_bill_number = None, p_bill_date = None,
       p_items =
         [\<lparr> pi_item_id = ''???'', pi_qty = 2, pi_cost = 1, pi_tax_rate = 0, pi_discount = 0 \<rparr>],
       p_other_charges = 0, p_notes = None, p_payment_status = ''unpaid'' \<rparr>"

definition demo_empty_purchase :: Purchase where
  "demo_empty_purchase =
     \<lparr> p_vendor_id = ''v1'', p_bill_number = None, p_bill_date = None,
       p_items = [], p_other_charges = 0, p_notes = None, p_payment_status = ''unpaid'' \<rparr>"

definition demo_payload :: "string \<Rightarrow> string \<Rightarrow> Item" where
  "demo_payload name sku =
     \<lparr> item_name = name, item_sku = sku, item_category = None, item_unit = ''pcs'',
       item_tax_rate = 0, item_cost_price = 0, item_sale_price = 0, item_reorder_level = 0,
       item_opening_stock = 0, item_barcode = None, item_is_active = True \<rparr>"

definition demo_ObjectId :: "string \<Rightarrow> string option" where
  "demo_ObjectId s = (if length s = 24 then Some s else None)"

text \<open>
  Sand with an opening stock of \<open>10\<^sup>1\<^sup>6\<close> kg and its ledger: two purchases of 1 kg and a
  sale of \<open>10\<^sup>1\<^sup>6\<close> kg. Nails with an opening stock of 0, in a store whose ledger has
  no movement of them, and a sale of 100 boxes of nails.
\<close>

definition demo_bulk :: item_doc where
  "demo_bulk =
     \<lparr> d_id = ''b2'', d_name = Some ''Sand'', d_sku = Some ''S-9'',
       d_opening_stock = Some 10000000000000000, d_unit = Some ''kg'' \<rparr>"

definition demo_bulk_ledger :: "movement_doc list" where
  "demo_bulk_ledger =
     [demo_movement ''m5'' ''b2'' ''in'' 1,
      demo_movement ''m6'' ''b2'' ''in'' 1,
      demo_movement ''m7'' ''b2'' ''out'' 10000000000000000]"

definition demo_nails :: item_doc where
  "demo_nails =
     \<lparr> d_id = ''c3'', d_name = Some ''Nails'', d_sku = Some ''N-3'',
       d_opening_stock = Some 0, d_unit = Some ''box'' \<rparr>"

definition demo_nails_store :: store where
  "demo_nails_store =
     \<lparr> item_coll = [demo_item, demo_nails], purchase_coll = [], sale_coll = [],
       stockmovement_coll = [demo_in, demo_out], inserted = 4 \<rparr>"

definition demo_nails_line :: SaleItem where
  "demo_nails_line =
     \<lparr> si_item_id = ''c3'', si_qty = 100, si_price = 1, si_discount = 0, si_tax_rate = 0 \<rparr>"

definition demo_nails_sale :: Sale where
  "demo_nails_sale =
     \<lparr> s_customer_id = None, s_invoice_number = None, s_invoice_date = None,
       s_items = [demo_nails_line],
       s_other_charges = 0, s_notes = None, s_payment_status = ''unpaid'' \<rparr>"

section \<open>Properties\<close>

subsection \<open>The loops of the stock report\<close>

lemma get_or_0_upd: "get_or_0 (qm(k \<mapsto> v)) k' = (if k' = k then v else get_or_0 qm k')"
  by (simp add: get_or_0_def)

lemma apply_movement_effect:
  "\<exists>qm'. apply_movement qm m = Inr qm' \<and>
     (\<forall>k. get_or_0 qm' k = movement_effect k (get_or_0 qm k) m)"
proof (cases "item_key m")
  case None
  then show ?thesis by (simp add: apply_movement_def movement_effect_def)
next
  case (Some j)
  show ?thesis
  proof (cases "j = []")
    case True
    with Some show ?thesis
      by (auto simp: apply_movement_def movement_effect_def falsy_def)
  next
    case False
    with Some show ?thesis
      by (simp add: apply_movement_def movement_effect_def falsy_def subscript_def
          get_or_0_upd Let_def)
  qed
qed

lemma movements_loop_effect:
  "\<exists>qm'. movements_loop ms qm = Inr qm' \<and>
     (\<forall>k. get_or_0 qm' k = foldl (movement_effect k) (get_or_0 qm k) ms)"
proof (induction ms arbitrary: qm)
  case Nil
  show ?case by simp
next
  case (Cons m ms)
  obtain qm1 where s: "apply_movement qm m = Inr qm1"
    and e: "\<And>k. get_or_0 qm1 k = movement_effect k (get_or_0 qm k) m"
    using apply_movement_effect [of qm m] by blast
  from Cons.IH [of qm1] s e show ?case by simp
qed

lemma items_loop_other:
  "k \<notin> set (map d_id its) \<Longrightarrow> items_loop its qm k = qm k"
  by (induction its arbitrary: qm) auto

lemma items_loop_distinct:
  "distinct (map d_id its) \<Longrightarrow> it \<in> set its \<Longrightarrow>
     items_loop its qm (d_id it) = Some (py_float (opening_stock_or_0 it))"
proof (induction its arbitrary: qm)
  case Nil
  then show ?case by simp
next
  case (Cons a its)
  show ?case
  proof (cases "it = a")
    case True
    with Cons.prems show ?thesis by (simp add: items_loop_other)
  next
    case False
    with Cons show ?thesis by auto
  qed
qed

lemma exact_ledger_sum:
  "k \<noteq> [] \<Longrightarrow> exact_ledger k a ms \<Longrightarrow>
     foldl (movement_effect k) (Fin a) ms = Fin (a + total_in k ms - total_out k ms)"
proof (induction ms arbitrary: a)
  case Nil
  show ?case by (simp add: total_in_def total_out_def)
next
  case (Cons m ms)
  consider (i) "item_key m = Some k" "m_type m = Some ''in''"
    | (o) "item_key m = Some k" "m_type m = Some ''out''"
    | (n) "\<not> (item_key m = Some k \<and> m_type m = Some ''in'')"
          "\<not> (item_key m = Some k \<and> m_type m = Some ''out'')"
    by blast
  then show ?case
  proof cases
    case i
    with Cons.prems have "foldl (movement_effect k) (Fin a) (m # ms) =
        foldl (movement_effect k) (Fin (a + qty_or_0 m)) ms"
      by (simp add: movement_effect_def)
    also have "\<dots> = Fin (a + qty_or_0 m + total_in k ms - total_out k ms)"
      using Cons.IH [of "a + qty_or_0 m"] Cons.prems i by simp
    finally show ?thesis using i by (simp add: total_in_def total_out_def)
  next
    case o
    with Cons.prems have "foldl (movement_effect k) (Fin a) (m # ms) =
        foldl (movement_effect k) (Fin (a - qty_or_0 m)) ms"
      by (simp add: movement_effect_def)
    also have "\<dots> = Fin (a - qty_or_0 m + total_in k ms - total_out k ms)"
      using Cons.IH [of "a - qty_or_0 m"] Cons.prems o by simp
    finally show ?thesis using o by (simp add: total_in_def total_out_def)
  next
    case n
    then have "movement_effect k (Fin a) m = Fin a"
      by (auto simp: movement_effect_def)
    then have "foldl (movement_effect k) (Fin a) (m # ms) = foldl (movement_effect k) (Fin a) ms"
      by simp
    also have "\<dots> = Fin (a + total_in k ms - total_out k ms)"
      using Cons.IH [of a] Cons.prems n by simp
    finally show ?thesis using n by (auto simp: total_in_def total_out_def)
  qed
qed


lemma compute_stock_report_rows:
  "\<exists>qm. compute_stock_report items ms = Inr (map (report_row_of qm) items) \<and>
     (\<forall>k. get_or_0 qm k =
        foldl (movement_effect k) (get_or_0 (items_loop items Map.empty) k) ms)"
proof -
  obtain qm where "movements_loop ms (items_loop items Map.empty) = Inr qm"
    and "\<And>k. get_or_0 qm k = foldl (movement_effect k) (get_or_0 (items_loop items Map.empty) k) ms"
    using movements_loop_effect [of ms "items_loop items Map.empty"] by blast
  then show ?thesis
    by (intro exI [of _ qm]) (simp add: compute_stock_report_def)
qed

lemma compute_stock_report_skip:
  assumes "\<And>k a. movement_effect k a m = a"
  shows "compute_stock_report items (ms1 @ m # ms2) = compute_stock_report items (ms1 @ ms2)"
proof -
  obtain qm where a: "compute_stock_report items (ms1 @ m # ms2) = Inr (map (report_row_of qm) items)"
    and qa: "\<And>k. get_or_0 qm k =
        foldl (movement_effect k) (get_or_0 (items_loop items Map.empty) k) (ms1 @ m # ms2)"
    using compute_stock_report_rows [of items "ms1 @ m # ms2"] by blast
  obtain qm' where b: "compute_stock_report items (ms1 @ ms2) = Inr (map (report_row_of qm') items)"
    and qb: "\<And>k. get_or_0 qm' k =
        foldl (movement_effect k) (get_or_0 (items_loop items Map.empty) k) (ms1 @ ms2)"
    using compute_stock_report_rows [of items "ms1 @ ms2"] by blast
  have "get_or_0 qm k = get_or_0 qm' k" for k
    by (simp add: qa qb assms)
  then have "map (report_row_of qm) items = map (report_row_of qm') items"
    by (simp add: report_row_of_def)
  with a b show ?thesis by simp
qed

lemma report_on_hand:
  assumes "distinct (map d_id items)" and "it \<in> set items"
  shows "\<exists>rows. compute_stock_report items ms = Inr rows \<and>
     d_id it \<in> r_item_id ` set rows \<and>
     (\<forall>r\<in>set rows. r_item_id r = d_id it \<longrightarrow>
        r_on_hand r =
          py_round2 (foldl (movement_effect (d_id it)) (py_float (opening_stock_or_0 it)) ms))"
proof -
  obtain qm where c: "compute_stock_report items ms = Inr (map (report_row_of qm) items)"
    and q: "\<And>k. get_or_0 qm k =
        foldl (movement_effect k) (get_or_0 (items_loop items Map.empty) k) ms"
    using compute_stock_report_rows [of items ms] by blast
  from assms have "get_or_0 (items_loop items Map.empty) (d_id it) =
      py_float (opening_stock_or_0 it)"
    by (simp add: get_or_0_def items_loop_distinct)
  with q have v: "get_or_0 qm (d_id it) =
      foldl (movement_effect (d_id it)) (py_float (opening_stock_or_0 it)) ms"
    by simp
  have "r_on_hand r = py_round2 (get_or_0 qm (d_id it))"
    if "r \<in> set (map (report_row_of qm) items)" and "r_item_id r = d_id it" for r
    using that by (auto simp: report_row_of_def)
  moreover from assms(2) have "d_id it \<in> r_item_id ` set (map (report_row_of qm) items)"
    by (force simp: report_row_of_def)
  ultimately show ?thesis
    using c v by auto
qed

lemma foldl_no_effect:
  "(\<And>m. m \<in> set ms \<Longrightarrow> movement_effect k a m = a) \<Longrightarrow> foldl (movement_effect k) a ms = a"
  by (induction ms) simp_all

lemma oversold_value: "py_round2 (fsub (py_float 0) (py_float 100)) = Fin (- 100)"
  by code_simp

subsection \<open>The stock report\<close>

text \<open>
  Claim C4. For every list of items and every list of movements the stock report
  returns a report and raises nothing. The report has exactly one row per item, in the
  order of the items, each carrying the identifier of its item: a movement whose
  \<^verbatim>\<open>item_id\<close> matches no item gets no row.
\<close>

theorem stock_report_never_fails:
  "\<exists>rows. compute_stock_report items movements = Inr rows \<and>
     length rows = length items \<and> map r_item_id rows = map d_id items"
proof -
  obtain qm where "compute_stock_report items movements = Inr (map (report_row_of qm) items)"
    using compute_stock_report_rows [of items movements] by blast
  then show ?thesis by (simp add: report_row_of_def comp_def)
qed


text \<open>
  Claim C8. A movement whose type is neither \<open>in\<close> nor \<open>out\<close> leaves the report as it
  is without it, wherever it stands among the movements. One movement is applied
  without error and changes the quantity held under a key \<open>k\<close> thus: type \<open>in\<close> on the
  movement's own key adds its quantity, type \<open>out\<close> on its own key subtracts it,
  and everything else is unchanged.
\<close>

theorem unknown_type_is_noop:
  "(m_type m \<noteq> Some ''in'' \<and> m_type m \<noteq> Some ''out'' \<longrightarrow>
      compute_stock_report items (ms1 @ m # ms2) = compute_stock_report items (ms1 @ ms2)) \<and>
   (\<exists>qm'. apply_movement qm m = Inr qm' \<and>
      (\<forall>k. get_or_0 qm' k =
         (if item_key m = Some k \<and> k \<noteq> [] \<and> m_type m = Some ''in''
            then fadd (get_or_0 qm k) (py_float (qty_or_0 m))
          else if item_key m = Some k \<and> k \<noteq> [] \<and> m_type m = Some ''out''
            then fsub (get_or_0 qm k) (py_float (qty_or_0 m))
          else get_or_0 qm k)))"
proof
  show "m_type m \<noteq> Some ''in'' \<and> m_type m \<noteq> Some ''out'' \<longrightarrow>
      compute_stock_report items (ms1 @ m # ms2) = compute_stock_report items (ms1 @ ms2)"
  proof
    assume "m_type m \<noteq> Some ''in'' \<and> m_type m \<noteq> Some ''out''"
    then have "movement_effect k a m = a" for k a
      by (simp add: movement_effect_def)
    then show "compute_stock_report items (ms1 @ m # ms2) = compute_stock_report items (ms1 @ ms2)"
      by (rule compute_stock_report_skip)
  qed
next
  obtain qm' where s: "apply_movement qm m = Inr qm'"
    and e: "\<And>k. get_or_0 qm' k = movement_effect k (get_or_0 qm k) m"
    using apply_movement_effect [of qm m] by blast
  have "get_or_0 qm' k =
         (if item_key m = Some k \<and> k \<noteq> [] \<and> m_type m = Some ''in''
            then fadd (get_or_0 qm k) (py_float (qty_or_0 m))
          else if item_key m = Some k \<and> k \<noteq> [] \<and> m_type m = Some ''out''
            then fsub (get_or_0 qm k) (py_float (qty_or_0 m))
          else get_or_0 qm k)" for k
    unfolding e movement_effect_def by simp
  with s show "\<exists>qm'. apply_movement qm m = Inr qm' \<and>
      (\<forall>k. get_or_0 qm' k =
         (if item_key m = Some k \<and> k \<noteq> [] \<and> m_type m = Some ''in''
            then fadd (get_or_0 qm k) (py_float (qty_or_0 m))
          else if item_key m = Some k \<and> k \<noteq> [] \<and> m_type m = Some ''out''
            then fsub (get_or_0 qm k) (py_float (qty_or_0 m))
          else get_or_0 qm k))"
    by blast
qed

theorem unknown_type_is_noop_witness:
  "m_type demo_adjust \<noteq> Some ''in'' \<and> m_type demo_adjust \<noteq> Some ''out'' \<and>
   compute_stock_report [demo_item] ([demo_in] @ demo_adjust # [demo_out]) =
     compute_stock_report [demo_item] ([demo_in] @ [demo_out])"
proof -
  have h: "m_type demo_adjust \<noteq> Some ''in'' \<and> m_type demo_adjust \<noteq> Some ''out''"
    by (simp add: demo_adjust_def demo_movement_def)
  with unknown_type_is_noop [of demo_adjust "[demo_item]" "[demo_in]" "[demo_out]" Map.empty]
  show ?thesis by blast
qed

text \<open>
  Claim C10. A movement whose \<^verbatim>\<open>item_id\<close> is falsy (absent, or the empty string) is
  skipped before its type is looked at: applying it returns the quantities unchanged,
  and the report is the report without it, whatever its type (also \<open>in\<close> and \<open>out\<close>).
\<close>

theorem falsy_item_id_skipped:
  assumes "falsy (item_key m)"
  shows "apply_movement qm m = Inr qm \<and>
    compute_stock_report items (ms1 @ m # ms2) = compute_stock_report items (ms1 @ ms2)"
proof
  from assms show "apply_movement qm m = Inr qm"
    by (cases "item_key m") (simp_all add: apply_movement_def)
  from assms have "movement_effect k a m = a" for k a
    by (auto simp: movement_effect_def falsy_def)
  then show "compute_stock_report items (ms1 @ m # ms2) = compute_stock_report items (ms1 @ ms2)"
    by (rule compute_stock_report_skip)
qed

theorem falsy_item_id_skipped_witness:
  "falsy (item_key demo_blank) \<and> m_type demo_blank = Some ''in'' \<and>
   apply_movement Map.empty demo_blank = Inr Map.empty \<and>
   compute_stock_report [demo_item] ([demo_in] @ demo_blank # [demo_out]) =
     compute_stock_report [demo_item] ([demo_in] @ [demo_out])"
proof -
  have h: "falsy (item_key demo_blank)"
    by (simp add: demo_blank_def demo_movement_def item_key_def falsy_def)
  have t: "m_type demo_blank = Some ''in''"
    by (simp add: demo_blank_def demo_movement_def)
  from falsy_item_id_skipped [OF h, of Map.empty "[demo_item]" "[demo_in]" "[demo_out]"] h t
  show ?thesis by blast
qed

text \<open>
  Claim C9. The stock report is a function of the items and the movements of the store
  alone: two stores with the same items and the same movements give the same report.
  Computing the report leaves the store as it was, so a second computation returns
  the same report.
\<close>

theorem stock_report_pure:
  assumes "item_coll s = item_coll s'" and "stockmovement_coll s = stockmovement_coll s'"
  shows "fst (stock_report s) = fst (stock_report s') \<and> snd (stock_report s) = s \<and>
    stock_report (snd (stock_report s)) = stock_report s"
  using assms by (simp add: stock_report_def)

theorem stock_report_pure_witness:
  "item_coll demo_store = item_coll (demo_store\<lparr>inserted := 9\<rparr>) \<and>
   stockmovement_coll demo_store = stockmovement_coll (demo_store\<lparr>inserted := 9\<rparr>) \<and>
   demo_store \<noteq> demo_store\<lparr>inserted := 9\<rparr> \<and>
   fst (stock_report demo_store) = fst (stock_report (demo_store\<lparr>inserted := 9\<rparr>)) \<and>
   stock_report (snd (stock_report demo_store)) = stock_report demo_store"
proof -
  have a: "item_coll demo_store = item_coll (demo_store\<lparr>inserted := 9\<rparr>)"
    and b: "stockmovement_coll demo_store = stockmovement_coll (demo_store\<lparr>inserted := 9\<rparr>)"
    by simp_all
  have c: "demo_store \<noteq> demo_store\<lparr>inserted := 9\<rparr>"
  proof
    assume "demo_store = demo_store\<lparr>inserted := 9\<rparr>"
    then have "inserted demo_store = inserted (demo_store\<lparr>inserted := 9\<rparr>)" by simp
    then show False by (simp add: demo_store_def)
  qed
  from stock_report_pure [OF a b] a b c show ?thesis by blast
qed

subsection \<open>The ledger endpoints\<close>

lemma purchase_lines_valid:
  "list_all valid_PurchaseItem ls \<Longrightarrow>
   purchase_lines new_id utcnow pid n ls s =
     (Inr (),
      s\<lparr> stockmovement_coll := stockmovement_coll s @
            map (\<lambda>(j, l).
                  \<lparr> m_id = new_id (inserted s + j), m_item_id = IdStr (pi_item_id l),
                    m_type = Some ''in'', m_qty = Some (pi_qty l),
                    m_reason = Some ''purchase'', m_ref_type = Some ''purchase'',
                    m_ref_id = Some pid, m_date = Some (utcnow (n + j)) \<rparr>)
              (enumerate 0 ls),
         inserted := inserted s + length ls \<rparr>)"
proof (induction ls arbitrary: n s)
  case Nil
  show ?case by simp
next
  case (Cons l ls)
  from Cons.prems have v: "valid_PurchaseItem l" and rest: "list_all valid_PurchaseItem ls"
    by simp_all
  from v have q: "0 < pi_qty l"
    by (simp add: valid_PurchaseItem_def)
  show ?case
    using q Cons.IH [OF rest]
    by (simp add: StockMovement_init_def create_document_stockmovement_def
        movement_document_def enumerate_Suc_eq [of 0] comp_def case_prod_beta Let_def)
qed

lemma sale_lines_valid:
  "list_all valid_SaleItem ls \<Longrightarrow>
   sale_lines new_id utcnow sid n ls s =
     (Inr (),
      s\<lparr> stockmovement_coll := stockmovement_coll s @
            map (\<lambda>(j, l).
                  \<lparr> m_id = new_id (inserted s + j), m_item_id = IdStr (si_item_id l),
                    m_type = Some ''out'', m_qty = Some (si_qty l),
                    m_reason = Some ''sale'', m_ref_type = Some ''sale'',
                    m_ref_id = Some sid, m_date = Some (utcnow (n + j)) \<rparr>)
              (enumerate 0 ls),
         inserted := inserted s + length ls \<rparr>)"
proof (induction ls arbitrary: n s)
  case Nil
  show ?case by simp
next
  case (Cons l ls)
  from Cons.prems have v: "valid_SaleItem l" and rest: "list_all valid_SaleItem ls"
    by simp_all
  from v have q: "0 < si_qty l"
    by (simp add: valid_SaleItem_def)
  show ?case
    using q Cons.IH [OF rest]
    by (simp add: StockMovement_init_def create_document_stockmovement_def
        movement_document_def enumerate_Suc_eq [of 0] comp_def case_prod_beta Let_def)
qed

lemma create_purchase_valid:
  "valid_Purchase p \<Longrightarrow>
   create_purchase new_id utcnow p s =
     (Inr (new_id (inserted s)),
      s\<lparr> purchase_coll := purchase_coll s @ [(new_id (inserted s), p)],
         stockmovement_coll := stockmovement_coll s @
            map (\<lambda>(j, l).
                  \<lparr> m_id = new_id (inserted s + 1 + j), m_item_id = IdStr (pi_item_id l),
                    m_type = Some ''in'', m_qty = Some (pi_qty l),
                    m_reason = Some ''purchase'', m_ref_type = Some ''purchase'',
                    m_ref_id = Some (new_id (inserted s)), m_date = Some (utcnow j) \<rparr>)
              (enumerate 0 (p_items p)),
         inserted := inserted s + 1 + length (p_items p) \<rparr>)"
  by (simp add: create_purchase_def create_document_purchase_def valid_Purchase_def
      purchase_lines_valid Let_def)

lemma create_sale_valid:
  "valid_Sale p \<Longrightarrow>
   create_sale new_id utcnow p s =
     (Inr (new_id (inserted s)),
      s\<lparr> sale_coll := sale_coll s @ [(new_id (inserted s), p)],
         stockmovement_coll := stockmovement_coll s @
            map (\<lambda>(j, l).
                  \<lparr> m_id = new_id (inserted s + 1 + j), m_item_id = IdStr (si_item_id l),
                    m_type = Some ''out'', m_qty = Some (si_qty l),
                    m_reason = Some ''sale'', m_ref_type = Some ''sale'',
                    m_ref_id = Some (new_id (inserted s)), m_date = Some (utcnow j) \<rparr>)
              (enumerate 0 (s_items p)),
         inserted := inserted s + 1 + length (s_items p) \<rparr>)"
  by (simp add: create_sale_def create_document_sale_def valid_Sale_def
      sale_lines_valid Let_def)

lemma demo_id_simps: "demo_id 3 = ''aaaa''" "demo_id 4 = ''aaaaa''" "demo_id 5 = ''aaaaaa''"
  by (simp_all add: demo_id_def numeral_3_eq_3 eval_nat_numeral)

lemma find_snoc:
  "find P (xs @ [x]) = (case find P xs of None \<Rightarrow> (if P x then Some x else None) | Some y \<Rightarrow> Some y)"
  by (induction xs) simp_all

text \<open>
  Claim C2. Recording a valid purchase of \<open>N\<close> lines returns the identifier of the
  stored purchase and appends exactly \<open>N\<close> movements to the ledger, one per line in
  the order of the lines: the movement of a line has the line's \<^verbatim>\<open>item_id\<close> and \<^verbatim>\<open>qty\<close>,
  type \<open>in\<close>, reason \<open>purchase\<close>, \<^verbatim>\<open>ref_type\<close> \<open>purchase\<close> and the purchase's identifier
  as \<^verbatim>\<open>ref_id\<close>. Recording a valid sale does the same with type \<open>out\<close>, reason \<open>sale\<close>,
  \<^verbatim>\<open>ref_type\<close> \<open>sale\<close> and the sale's identifier.
\<close>

theorem ledger_movement_per_line:
  "(valid_Purchase p \<longrightarrow>
      fst (create_purchase new_id utcnow p s) = Inr (new_id (inserted s)) \<and>
      purchase_coll (snd (create_purchase new_id utcnow p s)) =
        purchase_coll s @ [(new_id (inserted s), p)] \<and>
      stockmovement_coll (snd (create_purchase new_id utcnow p s)) =
        stockmovement_coll s @
        map (\<lambda>(j, l).
              \<lparr> m_id = new_id (inserted s + 1 + j), m_item_id = IdStr (pi_item_id l),
                m_type = Some ''in'', m_qty = Some (pi_qty l),
                m_reason = Some ''purchase'', m_ref_type = Some ''purchase'',
                m_ref_id = Some (new_id (inserted s)), m_date = Some (utcnow j) \<rparr>)
          (enumerate 0 (p_items p)) \<and>
      length (stockmovement_coll (snd (create_purchase new_id utcnow p s))) =
        length (stockmovement_coll s) + length (p_items p)) \<and>
   (valid_Sale sl \<longrightarrow>
      fst (create_sale new_id utcnow sl s) = Inr (new_id (inserted s)) \<and>
      sale_coll (snd (create_sale new_id utcnow sl s)) =
        sale_coll s @ [(new_id (inserted s), sl)] \<and>
      stockmovement_coll (snd (create_sale new_id utcnow sl s)) =
        stockmovement_coll s @
        map (\<lambda>(j, l).
              \<lparr> m_id = new_id (inserted s + 1 + j), m_item_id = IdStr (si_item_id l),
                m_type = Some ''out'', m_qty = Some (si_qty l),
                m_reason = Some ''sale'', m_ref_type = Some ''sale'',
                m_ref_id = Some (new_id (inserted s)), m_date = Some (utcnow j) \<rparr>)
          (enumerate 0 (s_items sl)) \<and>
      length (stockmovement_coll (snd (create_sale new_id utcnow sl s))) =
        length (stockmovement_coll s) + length (s_items sl))"
  by (simp add: create_purchase_valid create_sale_valid)

theorem ledger_movement_per_line_witness:
  "valid_Purchase demo_purchase \<and> valid_Sale demo_sale \<and>
   fst (create_purchase demo_id id demo_purchase demo_store) = Inr ''aaaa'' \<and>
   stockmovement_coll (snd (create_purchase demo_id id demo_purchase demo_store)) =
     [demo_in, demo_out,
      \<lparr> m_id = ''aaaaa'', m_item_id = IdStr ''a1'', m_type = Some ''in'', m_qty = Some 5,
        m_reason = Some ''purchase'', m_ref_type = Some ''purchase'',
        m_ref_id = Some ''aaaa'', m_date = Some 0 \<rparr>,
      \<lparr> m_id = ''aaaaaa'', m_item_id = IdStr ''b2'', m_type = Some ''in'', m_qty = Some (1 / 2),
        m_reason = Some ''purchase'', m_ref_type = Some ''purchase'',
        m_ref_id = Some ''aaaa'', m_date = Some 1 \<rparr>] \<and>
   fst (create_sale demo_id id demo_sale demo_store) = Inr ''aaaa'' \<and>
   stockmovement_coll (snd (create_sale demo_id id demo_sale demo_store)) =
     [demo_in, demo_out,
      \<lparr> m_id = ''aaaaa'', m_item_id = IdStr ''a1'', m_type = Some ''out'', m_qty = Some 3,
        m_reason = Some ''sale'', m_ref_type = Some ''sale'',
        m_ref_id = Some ''aaaa'', m_date = Some 0 \<rparr>]"
proof -
  have p: "valid_Purchase demo_purchase"
    by (simp add: valid_Purchase_def valid_PurchaseItem_def demo_purchase_def)
  have sl: "valid_Sale demo_sale"
    by (simp add: valid_Sale_def valid_SaleItem_def demo_sale_def)
  have i: "inserted demo_store = 3" "stockmovement_coll demo_store = [demo_in, demo_out]"
    by (simp_all add: demo_store_def)
  have e: "p_items demo_purchase =
         [\<lparr> pi_item_id = ''a1'', pi_qty = 5, pi_cost = 2, pi_tax_rate = 0, pi_discount = 0 \<rparr>,
          \<lparr> pi_item_id = ''b2'', pi_qty = 1 / 2, pi_cost = 9, pi_tax_rate = 18, pi_discount = 0 \<rparr>]"
    "s_items demo_sale =
         [\<lparr> si_item_id = ''a1'', si_qty = 3, si_price = 4, si_discount = 0, si_tax_rate = 0 \<rparr>]"
    by (simp_all add: demo_purchase_def demo_sale_def)
  from ledger_movement_per_line [of demo_purchase demo_id id demo_store demo_sale] p sl
  show ?thesis
    by (simp add: i e demo_id_simps)
qed

text \<open>
  Claim C6. Recording a purchase without lines stores the purchase and returns its
  identifier, creates no movement, and leaves the stock report as it was.
\<close>

theorem empty_purchase_no_movement:
  assumes "p_items p = []"
  shows "fst (create_purchase new_id utcnow p s) = Inr (new_id (inserted s)) \<and>
    purchase_coll (snd (create_purchase new_id utcnow p s)) =
      purchase_coll s @ [(new_id (inserted s), p)] \<and>
    stockmovement_coll (snd (create_purchase new_id utcnow p s)) = stockmovement_coll s \<and>
    fst (stock_report (snd (create_purchase new_id utcnow p s))) = fst (stock_report s)"
proof -
  from assms have "valid_Purchase p"
    by (simp add: valid_Purchase_def)
  then show ?thesis
    using assms by (simp add: create_purchase_valid stock_report_def)
qed

theorem empty_purchase_no_movement_witness:
  "p_items demo_empty_purchase = [] \<and>
   fst (create_purchase demo_id id demo_empty_purchase demo_store) = Inr ''aaaa'' \<and>
   purchase_coll (snd (create_purchase demo_id id demo_empty_purchase demo_store)) =
     [(''aaaa'', demo_empty_purchase)] \<and>
   stockmovement_coll (snd (create_purchase demo_id id demo_empty_purchase demo_store)) =
     [demo_in, demo_out] \<and>
   fst (stock_report (snd (create_purchase demo_id id demo_empty_purchase demo_store))) =
     fst (stock_report demo_store)"
proof -
  have e: "p_items demo_empty_purchase = []"
    by (simp add: demo_empty_purchase_def)
  have i: "inserted demo_store = 3" "stockmovement_coll demo_store = [demo_in, demo_out]"
    "purchase_coll demo_store = []"
    by (simp_all add: demo_store_def)
  from empty_purchase_no_movement [OF e, of demo_id id demo_store] e
  show ?thesis
    by (simp add: i demo_id_simps)
qed


text \<open>
  Claim C5. A create request that carries a malformed reference identifier is to be
  rejected with HTTP status 400, the answer of the helper \<^verbatim>\<open>to_oid\<close>. The endpoints
  never call the helper: a purchase whose \<^verbatim>\<open>vendor_id\<close> is \<open>not-an-id\<close> and whose line
  has the \<^verbatim>\<open>item_id\<close> \<open>???\<close>, strings that \<^verbatim>\<open>to_oid\<close> answers with 400 \<open>Invalid id\<close>,
  is recorded and its identifier returned, and both strings are stored as they came.
\<close>

theorem malformed_id_accepted:
  "to_oid demo_ObjectId ''not-an-id'' = Inl (HTTPException 400 ''Invalid id'') \<and>
   to_oid demo_ObjectId ''???'' = Inl (HTTPException 400 ''Invalid id'') \<and>
   valid_Purchase demo_bad_purchase \<and>
   fst (create_purchase demo_id id demo_bad_purchase demo_store) = Inr ''aaaa'' \<and>
   map (p_vendor_id \<circ> snd)
     (purchase_coll (snd (create_purchase demo_id id demo_bad_purchase demo_store))) =
     [''not-an-id''] \<and>
   map m_item_id
     (stockmovement_coll (snd (create_purchase demo_id id demo_bad_purchase demo_store))) =
     [IdStr ''a1'', IdStr ''a1'', IdStr ''???'']"
proof -
  have v: "valid_Purchase demo_bad_purchase"
    by (simp add: valid_Purchase_def valid_PurchaseItem_def demo_bad_purchase_def)
  have i: "inserted demo_store = 3" "stockmovement_coll demo_store = [demo_in, demo_out]"
    "purchase_coll demo_store = []"
    by (simp_all add: demo_store_def)
  have m: "m_item_id demo_in = IdStr ''a1''" "m_item_id demo_out = IdStr ''a1''"
    by (simp_all add: demo_in_def demo_out_def demo_movement_def)
  show ?thesis
    using v
    by (simp add: create_purchase_valid i m demo_id_simps to_oid_def demo_ObjectId_def)
      (simp add: demo_bad_purchase_def)
qed

subsection \<open>Item creation\<close>

text \<open>
  Claim C3. Creating an item whose SKU no stored item has succeeds and returns the
  generated identifier; a second creation with the same SKU, submitted next, fails
  with HTTP status 400, \<open>SKU already exists\<close> (the error kind DuplicateKey), and
  stores nothing.
\<close>

theorem duplicate_sku_rejected:
  assumes "find_one_sku s (item_sku p1) = None" and "item_sku p2 = item_sku p1"
  shows "fst (create_item new_id p1 s) = Inr (new_id (inserted s)) \<and>
    create_item new_id p2 (snd (create_item new_id p1 s)) =
      (Inl (HTTPException 400 ''SKU already exists''), snd (create_item new_id p1 s))"
  using assms
  by (simp add: create_item_def create_document_item_def find_one_sku_def find_snoc
      item_document_def Let_def)

theorem duplicate_sku_rejected_witness:
  "find_one_sku demo_store (item_sku (demo_payload ''Saw'' ''S-1'')) = None \<and>
   item_sku (demo_payload ''Handsaw'' ''S-1'') = item_sku (demo_payload ''Saw'' ''S-1'') \<and>
   fst (create_item demo_id (demo_payload ''Saw'' ''S-1'') demo_store) = Inr ''aaaa'' \<and>
   fst (create_item demo_id (demo_payload ''Handsaw'' ''S-1'')
         (snd (create_item demo_id (demo_payload ''Saw'' ''S-1'') demo_store))) =
     Inl (HTTPException 400 ''SKU already exists'')"
proof -
  have a: "find_one_sku demo_store (item_sku (demo_payload ''Saw'' ''S-1'')) = None"
    by (simp add: find_one_sku_def demo_store_def demo_item_def demo_payload_def)
  have b: "item_sku (demo_payload ''Handsaw'' ''S-1'') = item_sku (demo_payload ''Saw'' ''S-1'')"
    by (simp add: demo_payload_def)
  have i: "inserted demo_store = 3"
    by (simp add: demo_store_def)
  from duplicate_sku_rejected [OF a b, of demo_id] a b show ?thesis
    by (simp add: i demo_id_simps)
qed


subsection \<open>Stock conservation\<close>

text \<open>
  Claim C1, as stated: the report gives an item's on-hand quantity as \<open>O + I - T\<close>
  rounded to two decimals, for its opening stock \<open>O\<close>, the sum \<open>I\<close> of its \<open>in\<close>
  quantities and the sum \<open>T\<close> of its \<open>out\<close> quantities. It fails in float arithmetic:
  for sand, \<open>O = 10\<^sup>1\<^sup>6\<close>, \<open>I = 1 + 1\<close> and \<open>T = 10\<^sup>1\<^sup>6\<close>, so \<open>O + I - T = 2\<close>, but each
  addition of 1 to \<open>10\<^sup>1\<^sup>6\<close> is rounded back to \<open>10\<^sup>1\<^sup>6\<close> and the report says 0.
\<close>

theorem stock_conservation_counterexample:
  "map_sum id (map r_on_hand) (compute_stock_report [demo_bulk] demo_bulk_ledger) =
     Inr [Fin 0] \<and>
   py_round2 (Fin (opening_stock_or_0 demo_bulk + total_in ''b2'' demo_bulk_ledger
                   - total_out ''b2'' demo_bulk_ledger)) = Fin 2"
  by code_simp

text \<open>
  Claim C1, amended. Among items with distinct identifiers, for an item whose opening
  stock \<open>O\<close> is a float and whose running balance is never rounded along the movements
  (every addition and subtraction of the item's ledger is exact), the report gives the
  item's on-hand quantity as \<open>O + I - T\<close> rounded to two decimals. An item without
  movements is the case \<open>I = T = 0\<close>.
\<close>

theorem stock_conservation_when_exact:
  assumes "distinct (map d_id items)" and "it \<in> set items" and "d_id it \<noteq> []"
    and "py_float (opening_stock_or_0 it) = Fin (opening_stock_or_0 it)"
    and "exact_ledger (d_id it) (opening_stock_or_0 it) movements"
  shows "\<exists>rows. compute_stock_report items movements = Inr rows \<and>
     d_id it \<in> r_item_id ` set rows \<and>
     (\<forall>r\<in>set rows. r_item_id r = d_id it \<longrightarrow>
        r_on_hand r =
          py_round2 (Fin (opening_stock_or_0 it + total_in (d_id it) movements
                          - total_out (d_id it) movements)))"
  using report_on_hand [OF assms(1,2), of movements] exact_ledger_sum [OF assms(3,5)] assms(4)
  by simp


theorem stock_conservation_when_exact_witness:
  "distinct (map d_id [demo_item]) \<and> demo_item \<in> set [demo_item] \<and> d_id demo_item \<noteq> [] \<and>
   py_float (opening_stock_or_0 demo_item) = Fin (opening_stock_or_0 demo_item) \<and>
   exact_ledger (d_id demo_item) (opening_stock_or_0 demo_item) [demo_in, demo_out] \<and>
   (\<exists>rows. compute_stock_report [demo_item] [demo_in, demo_out] = Inr rows \<and>
      ''a1'' \<in> r_item_id ` set rows \<and>
      (\<forall>r\<in>set rows. r_item_id r = ''a1'' \<longrightarrow> r_on_hand r = Fin 12))"
proof -
  have a: "distinct (map d_id [demo_item])" and b: "demo_item \<in> set [demo_item]"
    by simp_all
  have k: "d_id demo_item = ''a1''"
    by (simp add: demo_item_def)
  have c: "d_id demo_item \<noteq> []"
    by (simp add: k)
  have d: "py_float (opening_stock_or_0 demo_item) = Fin (opening_stock_or_0 demo_item)"
    by code_simp
  have e: "exact_ledger (d_id demo_item) (opening_stock_or_0 demo_item) [demo_in, demo_out]"
    by code_simp
  have v: "py_round2 (Fin (opening_stock_or_0 demo_item + total_in ''a1'' [demo_in, demo_out]
      - total_out ''a1'' [demo_in, demo_out])) = Fin 12"
    by code_simp
  from stock_conservation_when_exact [OF a b c d e] a b c d e
  show ?thesis
    by (simp only: k v) simp
qed


text \<open>
  Claim C7. On-hand may go negative: for an item with opening stock 0 whose ledger holds
  no \<open>in\<close> and no \<open>out\<close> movement, a sale of 100 units of it is recorded without
  error, and the stock report computed afterwards gives the item an on-hand quantity
  of \<open>-100\<close>.
\<close>

theorem oversold_stock_goes_negative:
  assumes "distinct (map d_id (item_coll s))"
    and "it \<in> set (item_coll s)" and "d_id it \<noteq> []" and "opening_stock_or_0 it = 0"
    and "\<forall>m\<in>set (stockmovement_coll s).
           item_key m = Some (d_id it) \<longrightarrow> m_type m \<noteq> Some ''in'' \<and> m_type m \<noteq> Some ''out''"
    and "s_items sl = [line]" and "si_item_id line = d_id it" and "si_qty line = 100"
  shows "fst (create_sale new_id utcnow sl s) = Inr (new_id (inserted s)) \<and>
    (\<exists>rows. fst (stock_report (snd (create_sale new_id utcnow sl s))) = Inr rows \<and>
       d_id it \<in> r_item_id ` set rows \<and>
       (\<forall>r\<in>set rows. r_item_id r = d_id it \<longrightarrow> r_on_hand r = Fin (- 100)))"
proof -
  let ?k = "d_id it"
  let ?m = "\<lparr> m_id = new_id (inserted s + 1), m_item_id = IdStr ?k, m_type = Some ''out'',
       m_qty = Some 100, m_reason = Some ''sale'', m_ref_type = Some ''sale'',
       m_ref_id = Some (new_id (inserted s)), m_date = Some (utcnow 0) \<rparr>"
  let ?s' = "snd (create_sale new_id utcnow sl s)"
  have run: "create_sale new_id utcnow sl s =
      (Inr (new_id (inserted s)),
       s\<lparr> sale_coll := sale_coll s @ [(new_id (inserted s), sl)],
          stockmovement_coll := stockmovement_coll s @ [?m],
          inserted := inserted s + 2 \<rparr>)"
    using assms(6-8)
    by (simp add: create_sale_def create_document_sale_def StockMovement_init_def
        create_document_stockmovement_def movement_document_def Let_def)
  have old: "foldl (movement_effect ?k) a (stockmovement_coll s) = a" for a
  proof (rule foldl_no_effect)
    fix m assume "m \<in> set (stockmovement_coll s)"
    with assms(5) show "movement_effect ?k a m = a"
      by (auto simp: movement_effect_def)
  qed
  have new: "movement_effect ?k a ?m = fsub a (py_float 100)" for a
    using assms(3) by (simp add: movement_effect_def item_key_def qty_or_0_def)
  have val: "py_round2 (foldl (movement_effect ?k) (py_float (opening_stock_or_0 it))
      (stockmovement_coll s @ [?m])) = Fin (- 100)"
  proof -
    have "foldl (movement_effect ?k) (py_float (opening_stock_or_0 it))
        (stockmovement_coll s @ [?m]) =
      movement_effect ?k (foldl (movement_effect ?k) (py_float (opening_stock_or_0 it))
        (stockmovement_coll s)) ?m"
      by (simp only: foldl_append foldl_Cons foldl_Nil)
    also have "\<dots> = fsub (py_float 0) (py_float 100)"
      by (simp only: old new assms(4))
    finally show ?thesis
      by (simp only: oversold_value)
  qed
  from report_on_hand [OF assms(1,2), of "stockmovement_coll s @ [?m]"] val
  have "\<exists>rows. compute_stock_report (item_coll s) (stockmovement_coll s @ [?m]) = Inr rows \<and>
       ?k \<in> r_item_id ` set rows \<and>
       (\<forall>r\<in>set rows. r_item_id r = ?k \<longrightarrow> r_on_hand r = Fin (- 100))"
    by simp
  then show ?thesis
    by (simp add: run stock_report_def)
qed

theorem oversold_stock_goes_negative_witness:
  "distinct (map d_id (item_coll demo_nails_store)) \<and>
   demo_nails \<in> set (item_coll demo_nails_store) \<and> d_id demo_nails \<noteq> [] \<and>
   opening_stock_or_0 demo_nails = 0 \<and>
   map item_key (stockmovement_coll demo_nails_store) = [Some ''a1'', Some ''a1''] \<and>
   s_items demo_nails_sale = [demo_nails_line] \<and>
   si_item_id demo_nails_line = d_id demo_nails \<and> si_qty demo_nails_line = 100 \<and>
   fst (create_sale demo_id id demo_nails_sale demo_nails_store) = Inr ''aaaaa'' \<and>
   (\<exists>rows. fst (stock_report (snd (create_sale demo_id id demo_nails_sale demo_nails_store))) =
        Inr rows \<and>
      ''c3'' \<in> r_item_id ` set rows \<and>
      (\<forall>r\<in>set rows. r_item_id r = ''c3'' \<longrightarrow> r_on_hand r = Fin (- 100)))"
proof -
  have a: "distinct (map d_id (item_coll demo_nails_store))"
    by (simp add: demo_nails_store_def demo_item_def demo_nails_def)
  have b: "demo_nails \<in> set (item_coll demo_nails_store)"
    by (simp add: demo_nails_store_def)
  have k: "d_id demo_nails = ''c3''"
    by (simp add: demo_nails_def)
  have c: "d_id demo_nails \<noteq> []"
    by (simp add: k)
  have d: "opening_stock_or_0 demo_nails = 0"
    by (simp add: opening_stock_or_0_def demo_nails_def)
  have e: "map item_key (stockmovement_coll demo_nails_store) = [Some ''a1'', Some ''a1'']"
    by (simp add: demo_nails_store_def demo_in_def demo_out_def demo_movement_def item_key_def)
  have f: "\<forall>m\<in>set (stockmovement_coll demo_nails_store).
      item_key m = Some (d_id demo_nails) \<longrightarrow>
        m_type m \<noteq> Some ''in'' \<and> m_type m \<noteq> Some ''out''"
    by (simp add: demo_nails_store_def demo_in_def demo_out_def demo_movement_def item_key_def k)
  have g: "s_items demo_nails_sale = [demo_nails_line]"
    by (simp add: demo_nails_sale_def)
  have h: "si_item_id demo_nails_line = d_id demo_nails" "si_qty demo_nails_line = 100"
    by (simp_all add: demo_nails_line_def k)
  have i: "demo_id (inserted demo_nails_store) = ''aaaaa''"
    by (simp add: demo_nails_store_def demo_id_simps)
  from oversold_stock_goes_negative [OF a b c d f g h, of demo_id id] a b c d e g h
  show ?thesis
    by (simp only: i k) simp
qed


end
